theory Spec2Isabelle
  imports Complex_Main "HOL-Library.Multiset"
begin

section \<open>Conventions\<close>

text \<open>
  A JavaScript \<^verbatim>\<open>number\<close> is modelled as a \<^typ>\<open>real\<close>: arithmetic is exact, and the
  values NaN, Infinity and -0 do not exist. A value of type \<^verbatim>\<open>number | null | undefined\<close>
  is a \<^typ>\<open>real option\<close>, \<^term>\<open>None\<close> standing for null, undefined and every value whose
  \<^verbatim>\<open>typeof\<close> is not \<^verbatim>\<open>'number'\<close>. What a function writes with \<^verbatim>\<open>console.error\<close> is
  returned as a list of lines, in front of the value the function returns.
\<close>

section \<open>Beam deflection: src/app/lib/calculations.ts\<close>

definition calculateSimpleBeamPointLoadDeflection ::
  "real \<Rightarrow> real \<Rightarrow> real \<Rightarrow> real \<Rightarrow> real \<Rightarrow> real \<Rightarrow> string list \<times> real" where
  "calculateSimpleBeamPointLoadDeflection L P E I a x =
    (if E = 0 \<or> I = 0 \<or> L = 0 then ([], 0)
     else if a < 0 \<or> a > L then
       ([''Load position 'a' must be between 0 and L.''], 0)
     else if x < 0 \<or> x > L then
       ([''Calculation point 'x' must be between 0 and L.''], 0)
     else
       (let b = L - a in
        if x \<le> a then
          ([], (P * b * x) / (6 * E * I * L) * (L * L - b * b - x * x))
        else
          ([], (P * a * (L - x)) / (6 * E * I * L) * (L * L - a * a - (L - x) * (L - x)))))"

text \<open>The number returned to the caller, without the console output.\<close>

definition deflectionAt :: "real \<Rightarrow> real \<Rightarrow> real \<Rightarrow> real \<Rightarrow> real \<Rightarrow> real \<Rightarrow> real" where
  "deflectionAt L P E I a x = snd (calculateSimpleBeamPointLoadDeflection L P E I a x)"

record MaxDeflectionResult =
  maxDeflection :: real
  location :: real

text \<open>
  \<^verbatim>\<open>x_max\<close> of \<^verbatim>\<open>calculateSimpleBeamMaxDeflection\<close>, the local variable assigned in the
  \<^verbatim>\<open>if (a <= b)\<close> statement.
\<close>

definition x_max :: "real \<Rightarrow> real \<Rightarrow> real" where
  "x_max L a =
    (let b = L - a in
     if a \<le> b then sqrt ((L * L - b * b) / 3)
     else L - sqrt ((L * L - a * a) / 3))"

text \<open>The result \<^term>\<open>None\<close> is the \<^verbatim>\<open>null\<close> the function returns.\<close>

definition calculateSimpleBeamMaxDeflection ::
  "real \<Rightarrow> real \<Rightarrow> real \<Rightarrow> real \<Rightarrow> real \<Rightarrow> string list \<times> MaxDeflectionResult option" where
  "calculateSimpleBeamMaxDeflection L P E I a =
    (if E = 0 \<or> I = 0 \<or> L = 0 \<or> P = 0 then
       ([], Some \<lparr>maxDeflection = 0, location = L / 2\<rparr>)
     else if a \<le> 0 \<or> a \<ge> L then
       ([''Load position 'a' must be between 0 and L (exclusive).''], None)
     else
       (let (console, d) = calculateSimpleBeamPointLoadDeflection L P E I a (x_max L a)
        in (console, Some \<lparr>maxDeflection = d, location = x_max L a\<rparr>)))"

definition calculateBeamDeflection :: "real \<Rightarrow> real \<Rightarrow> real \<Rightarrow> real \<Rightarrow> string list \<times> real" where
  "calculateBeamDeflection length' load youngsModulus inertia =
    calculateSimpleBeamPointLoadDeflection length' load youngsModulus inertia
      (length' / 2) (length' / 2)"

section \<open>Derived shear modulus: src/prisma/seed.ts\<close>

text \<open>
  The interface \<^verbatim>\<open>MaterialData\<close>. Its field names carry a prime, since the chart's
  \<^verbatim>\<open>Material\<close> type below has fields of the same names.
\<close>

record MaterialData =
  name' :: string
  category' :: string
  density' :: "real option"
  youngsModulus' :: "real option"
  ultimateTensileStrength' :: "real option"
  thermalExpansionCoefficient' :: "real option"
  yieldStrength' :: "real option"
  poissonsRatio' :: "real option"
  shearModulus' :: "real option"
  elongationAtBreak' :: "real option"
  compressiveStrength' :: "real option"
  flexuralStrength' :: "real option"
  fractureToughness' :: "real option"
  meltingPoint' :: "real option"
  hdt' :: "real option"
  maxServiceTemperature' :: "real option"
  fiberType' :: "string option"
  matrixType' :: "string option"

definition calculateShearModulus :: "real option \<Rightarrow> real option \<Rightarrow> real option" where
  "calculateShearModulus youngsModulus poissonsRatio =
    (case (youngsModulus, poissonsRatio) of
       (Some ym, Some pr) \<Rightarrow> if pr \<le> - 1 then None else Some (ym / (2 * (1 + pr)))
     | _ \<Rightarrow> None)"

text \<open>
  The payload is an object that holds a key only for a value that is not null; it is
  modelled as a \<^typ>\<open>MaterialData\<close> in which \<^term>\<open>None\<close> says that the key is absent.
  The loop over \<^verbatim>\<open>optionalFields\<close> copies every optional field but the shear modulus.
\<close>

definition createMaterialPayload :: "MaterialData \<Rightarrow> real option \<Rightarrow> MaterialData" where
  "createMaterialPayload mat calculatedShearModulus =
    (let finalShearModulus =
           (case shearModulus' mat of Some g \<Rightarrow> Some g | None \<Rightarrow> calculatedShearModulus)
     in mat\<lparr>shearModulus' := finalShearModulus\<rparr>)"

text \<open>The payload that the loop of \<^verbatim>\<open>main\<close> builds for one material.\<close>

definition main_payload :: "MaterialData \<Rightarrow> MaterialData" where
  "main_payload mat =
    (let calculatedShearModulus = calculateShearModulus (youngsModulus' mat) (poissonsRatio' mat)
     in createMaterialPayload mat calculatedShearModulus)"

section \<open>Unit conversion: the materials table and the compare page\<close>

text \<open>
  The unit names are written in ASCII: \<^verbatim>\<open>kg/m3\<close>, \<^verbatim>\<open>g/cm3\<close> and \<^verbatim>\<open>lb/ft3\<close> stand for the
  names with a superscript three. A unit table is an object literal, modelled as an
  association list in the order of its keys.
\<close>

record UnitInfo =
  factor :: real
  precision :: nat

type_synonym UnitConversionFactors = "(string \<times> UnitInfo) list"

datatype unitType = density_type | modulus_type | strength_type

text \<open>The state \<^verbatim>\<open>selectedUnits\<close>, one unit name for each unit type.\<close>

record SelectedUnits =
  density_unit :: string
  modulus_unit :: string
  strength_unit :: string

definition selected :: "SelectedUnits \<Rightarrow> unitType \<Rightarrow> string" where
  "selected selectedUnits unitType =
    (case unitType of
       density_type \<Rightarrow> density_unit selectedUnits
     | modulus_type \<Rightarrow> modulus_unit selectedUnits
     | strength_type \<Rightarrow> strength_unit selectedUnits)"

text \<open>Reading \<^verbatim>\<open>.factor\<close> of an undefined table entry throws a TypeError.\<close>

datatype js_error = TypeError

subsection \<open>The materials table (src/unnamed/part_004)\<close>

definition MaterialsTable_densityUnits :: UnitConversionFactors where
  "MaterialsTable_densityUnits =
    [(''kg/m3'', \<lparr>factor = 1, precision = 0\<rparr>),
     (''g/cm3'', \<lparr>factor = 1 / 1000, precision = 3\<rparr>),
     (''lb/ft3'', \<lparr>factor = 160185 / 10000000, precision = 3\<rparr>)]"

definition MaterialsTable_modulusUnits :: UnitConversionFactors where
  "MaterialsTable_modulusUnits =
    [(''GPa'', \<lparr>factor = 1000000000, precision = 5\<rparr>),
     (''MPa'', \<lparr>factor = 1000000, precision = 2\<rparr>),
     (''ksi'', \<lparr>factor = 6894760, precision = 3\<rparr>),
     (''psi'', \<lparr>factor = 689476 / 100, precision = 0\<rparr>)]"

definition MaterialsTable_strengthUnits :: UnitConversionFactors where
  "MaterialsTable_strengthUnits =
    [(''GPa'', \<lparr>factor = 1000000000, precision = 5\<rparr>),
     (''MPa'', \<lparr>factor = 1000000, precision = 2\<rparr>),
     (''ksi'', \<lparr>factor = 6894760, precision = 3\<rparr>),
     (''psi'', \<lparr>factor = 689476 / 100, precision = 0\<rparr>)]"

definition MaterialsTable_conversionFactors :: "unitType \<Rightarrow> UnitConversionFactors" where
  "MaterialsTable_conversionFactors unitType =
    (case unitType of
       density_type \<Rightarrow> MaterialsTable_densityUnits
     | modulus_type \<Rightarrow> MaterialsTable_modulusUnits
     | strength_type \<Rightarrow> MaterialsTable_strengthUnits)"

text \<open>
  \<^verbatim>\<open>convertValue\<close> up to the number \<^verbatim>\<open>converted\<close>: the result \<^term>\<open>Inr None\<close> is the
  string N/A, and \<^term>\<open>Inr (Some c)\<close> is the number that the function then formats with
  \<^verbatim>\<open>toLocaleString\<close>. The formatting itself is not modelled.
\<close>

definition MaterialsTable_convertValue ::
  "SelectedUnits \<Rightarrow> real option \<Rightarrow> unitType \<Rightarrow> js_error + real option" where
  "MaterialsTable_convertValue selectedUnits value unitType =
    (case value of
       None \<Rightarrow> Inr None
     | Some siValue \<Rightarrow>
         (case map_of (MaterialsTable_conversionFactors unitType)
                 (selected selectedUnits unitType) of
            None \<Rightarrow> Inl TypeError
          | Some unitInfo \<Rightarrow> Inr (Some (siValue / factor unitInfo))))"

subsection \<open>The compare page (src/app/materials/compare/MaterialCompareClientPage.tsx)\<close>

definition Compare_densityUnits :: UnitConversionFactors where
  "Compare_densityUnits =
    [(''kg/m3'', \<lparr>factor = 1, precision = 0\<rparr>),
     (''g/cm3'', \<lparr>factor = 1000, precision = 3\<rparr>),
     (''lb/ft3'', \<lparr>factor = 160185 / 10000, precision = 3\<rparr>)]"

definition Compare_modulusUnits :: UnitConversionFactors where
  "Compare_modulusUnits =
    [(''GPa'', \<lparr>factor = 1000000000, precision = 5\<rparr>),
     (''MPa'', \<lparr>factor = 1000000, precision = 2\<rparr>),
     (''ksi'', \<lparr>factor = 6894760, precision = 3\<rparr>),
     (''psi'', \<lparr>factor = 689476 / 100, precision = 0\<rparr>)]"

definition Compare_strengthUnits :: UnitConversionFactors where
  "Compare_strengthUnits =
    [(''MPa'', \<lparr>factor = 1000000, precision = 2\<rparr>),
     (''ksi'', \<lparr>factor = 6894760, precision = 3\<rparr>),
     (''psi'', \<lparr>factor = 689476 / 100, precision = 0\<rparr>),
     (''GPa'', \<lparr>factor = 1000000000, precision = 5\<rparr>)]"

definition Compare_conversionFactors :: "unitType \<Rightarrow> UnitConversionFactors" where
  "Compare_conversionFactors unitType =
    (case unitType of
       density_type \<Rightarrow> Compare_densityUnits
     | modulus_type \<Rightarrow> Compare_modulusUnits
     | strength_type \<Rightarrow> Compare_strengthUnits)"

definition calculateConvertedValue ::
  "SelectedUnits \<Rightarrow> real option \<Rightarrow> unitType \<Rightarrow> js_error + real option" where
  "calculateConvertedValue selectedUnits value unitType =
    (case value of
       None \<Rightarrow> Inr None
     | Some v \<Rightarrow>
         (let factors = Compare_conversionFactors unitType;
              selectedUnit = selected selectedUnits unitType
          in case map_of factors selectedUnit of
               None \<Rightarrow> Inl TypeError
             | Some unitInfo \<Rightarrow> Inr (Some (v / factor unitInfo))))"

section \<open>Radar chart normalisation: src/app/materials/compare/ComparisonChartsContainer.tsx\<close>

text \<open>
  The type \<^verbatim>\<open>Material\<close> of the radar chart. The field \<^verbatim>\<open>id\<close> is written \<open>id'\<close>.
\<close>

record Material =
  id' :: string
  name :: string
  density :: "real option"
  youngsModulus :: "real option"
  yieldStrength :: "real option"
  ultimateTensileStrength :: "real option"
  poissonsRatio :: "real option"
  shearModulus :: "real option"
  thermalExpansionCoefficient :: "real option"
  relativeCost :: "real option"
  specificStrength :: "real option"
  specificModulus :: "real option"

text \<open>
  The expression \<^verbatim>\<open>mat[key]\<close> filtered by \<^verbatim>\<open>typeof v === 'number'\<close>: the number under the
  key, and \<^term>\<open>None\<close> for a key that holds no number.
\<close>

definition index_number :: "Material \<Rightarrow> string \<Rightarrow> real option" where
  "index_number mat k =
    (if k = ''density'' then density mat
     else if k = ''youngsModulus'' then youngsModulus mat
     else if k = ''yieldStrength'' then yieldStrength mat
     else if k = ''ultimateTensileStrength'' then ultimateTensileStrength mat
     else if k = ''poissonsRatio'' then poissonsRatio mat
     else if k = ''shearModulus'' then shearModulus mat
     else if k = ''thermalExpansionCoefficient'' then thermalExpansionCoefficient mat
     else if k = ''relativeCost'' then relativeCost mat
     else if k = ''specificStrength'' then specificStrength mat
     else if k = ''specificModulus'' then specificModulus mat
     else None)"

record RadarProperty =
  key :: string
  label :: string
  higherIsBetter :: bool

definition radarProperties :: "RadarProperty list" where
  "radarProperties =
    [\<lparr>key = ''youngsModulus'', label = ''E Modulus'', higherIsBetter = True\<rparr>,
     \<lparr>key = ''ultimateTensileStrength'', label = ''UTS'', higherIsBetter = True\<rparr>,
     \<lparr>key = ''yieldStrength'', label = ''Yield Str.'', higherIsBetter = True\<rparr>,
     \<lparr>key = ''density'', label = ''Density'', higherIsBetter = False\<rparr>,
     \<lparr>key = ''specificModulus'', label = ''Specific Mod.'', higherIsBetter = True\<rparr>,
     \<lparr>key = ''specificStrength'', label = ''Specific Str.'', higherIsBetter = True\<rparr>,
     \<lparr>key = ''thermalExpansionCoefficient'', label = ''Therm. Exp.'', higherIsBetter = False\<rparr>]"

text \<open>One step of the \<^verbatim>\<open>map\<close> that builds \<^verbatim>\<open>processedMaterials\<close>.\<close>

definition processMaterial :: "Material \<Rightarrow> Material" where
  "processMaterial mat =
    (let processedMat = mat;
         processedMat1 =
           (case (yieldStrength mat, density mat) of
              (Some ys, Some d) \<Rightarrow>
                if d \<noteq> 0 then processedMat\<lparr>specificStrength := Some ((ys / d) / 1000)\<rparr>
                else processedMat
            | _ \<Rightarrow> processedMat);
         processedMat2 =
           (case (youngsModulus mat, density mat) of
              (Some ym, Some d) \<Rightarrow>
                if d \<noteq> 0 then processedMat1\<lparr>specificModulus := Some ((ym / d) / 1000000)\<rparr>
                else processedMat1
            | _ \<Rightarrow> processedMat1)
     in processedMat2)"

definition processedMaterials :: "Material list \<Rightarrow> Material list" where
  "processedMaterials materials = map processMaterial materials"

text \<open>The filter \<^verbatim>\<open>typeof v === 'number'\<close> over a list of values.\<close>

primrec numbers :: "real option list \<Rightarrow> real list" where
  "numbers [] = []"
| "numbers (v # vs) = (case v of None \<Rightarrow> numbers vs | Some r \<Rightarrow> r # numbers vs)"

text \<open>The list \<^verbatim>\<open>values\<close> of the first loop, for one key.\<close>

definition values_of :: "Material list \<Rightarrow> string \<Rightarrow> real list" where
  "values_of pm k = numbers (map (\<lambda>mat. index_number mat k) pm)"

text \<open>
  The first loop over \<^verbatim>\<open>radarProperties\<close>: it fills the two records \<^verbatim>\<open>mins\<close> and
  \<^verbatim>\<open>maxs\<close>. \<^verbatim>\<open>Math.min(...values)\<close> is called on a list that is not empty only.
\<close>

definition minMaxStep ::
  "Material list \<Rightarrow> RadarProperty \<Rightarrow> (string \<rightharpoonup> real) \<times> (string \<rightharpoonup> real)
     \<Rightarrow> (string \<rightharpoonup> real) \<times> (string \<rightharpoonup> real)" where
  "minMaxStep pm p mm =
    (let values = values_of pm (key p) in
     if length values > 0 then
       ((fst mm)(key p \<mapsto> Min (set values)), (snd mm)(key p \<mapsto> Max (set values)))
     else
       ((fst mm)(key p \<mapsto> 0), (snd mm)(key p \<mapsto> 1)))"

definition minMaxPass :: "Material list \<Rightarrow> (string \<rightharpoonup> real) \<times> (string \<rightharpoonup> real)" where
  "minMaxPass pm = fold (minMaxStep pm) radarProperties (Map.empty, Map.empty)"

text \<open>
  The two numbers that the first loop stores under a key: the extrema of the values of
  that key, or 0 and 1 when no material has a value there.
\<close>

definition stored_min :: "Material list \<Rightarrow> string \<Rightarrow> real" where
  "stored_min pm k = (if values_of pm k = [] then 0 else Min (set (values_of pm k)))"

definition stored_max :: "Material list \<Rightarrow> string \<Rightarrow> real" where
  "stored_max pm k = (if values_of pm k = [] then 1 else Max (set (values_of pm k)))"

text \<open>
  The value \<^verbatim>\<open>normalizedValue\<close> that the second loop computes for one property and one
  material. A key missing from \<^verbatim>\<open>mins\<close> or \<^verbatim>\<open>maxs\<close> reads as undefined: the range is
  then NaN, both tests fail and the default 50 stays.
\<close>

definition normalizedValue ::
  "(string \<rightharpoonup> real) \<times> (string \<rightharpoonup> real) \<Rightarrow> RadarProperty \<Rightarrow> Material \<Rightarrow> real" where
  "normalizedValue mm p mat =
    (case index_number mat (key p) of
       None \<Rightarrow> 50
     | Some rawValue \<Rightarrow>
         (case (fst mm (key p), snd mm (key p)) of
            (Some min', Some max') \<Rightarrow>
              (let range = max' - min' in
               if range > 0 then
                 (let n = ((rawValue - min') / range) * 100
                  in if \<not> higherIsBetter p then 100 - n else n)
               else if rawValue = min' then (if higherIsBetter p then 100 else 0)
               else 50)
          | _ \<Rightarrow> 50))"

text \<open>A value stored in an axis point: a number or a string.\<close>

datatype cell = Num real | Str string

text \<open>
  The assignment \<^verbatim>\<open>object[k] = v\<close> of a number or a string to an object that was created
  by an object literal. A map holds the object's own keys. The key \<^verbatim>\<open>__proto__\<close> is not
  an own key but the accessor inherited from \<^verbatim>\<open>Object.prototype\<close>, whose setter ignores a
  value that is neither an object nor null: that assignment stores nothing.
\<close>

definition assign_key :: "(string \<rightharpoonup> cell) \<Rightarrow> string \<Rightarrow> cell \<Rightarrow> (string \<rightharpoonup> cell)" where
  "assign_key object k v = (if k = ''__proto__'' then object else object(k \<mapsto> v))"

text \<open>
  One axis point of the chart: the object that starts with the keys \<^verbatim>\<open>subject\<close> and
  \<^verbatim>\<open>fullMark\<close> and is assigned one number under each material name, a later
  assignment replacing an earlier one under the same key.
\<close>

definition axisPoint ::
  "(string \<rightharpoonup> real) \<times> (string \<rightharpoonup> real) \<Rightarrow> Material list \<Rightarrow> RadarProperty
     \<Rightarrow> (string \<rightharpoonup> cell)" where
  "axisPoint mm pm p =
    fold (\<lambda>mat point. assign_key point (name mat) (Num (normalizedValue mm p mat))) pm
      [''subject'' \<mapsto> Str (label p), ''fullMark'' \<mapsto> Num 100]"

definition normalizedData :: "Material list \<Rightarrow> (string \<rightharpoonup> cell) list" where
  "normalizedData materials =
    (let pm = processedMaterials materials;
         mm = minMaxPass pm
     in map (axisPoint mm pm) radarProperties)"

subsection \<open>The scoring rule in the words of the specification\<close>

text \<open>
  The score of a value among the defined values of its axis, as section 4.3 of the
  specification gives it: three cases, and \<^term>\<open>None\<close> where none of them applies.
\<close>

definition spec_score :: "bool \<Rightarrow> real option \<Rightarrow> real list \<Rightarrow> real option" where
  "spec_score hib v defined =
    (case v of
       None \<Rightarrow> Some 50
     | Some x \<Rightarrow>
         (let mn = Min (set defined); mx = Max (set defined) in
          if mx > mn then
            (let t = (x - mn) / (mx - mn) * 100 in Some (if hib then t else 100 - t))
          else if mx = mn then Some (if hib then 100 else 0)
          else None))"

text \<open>
  The score of a material on one axis in the words of the specification: the axis is
  given by its direction and by the field that holds its value, and the extrema are
  those of the defined values of that field over all materials of the set.
\<close>

definition reference_score ::
  "bool \<Rightarrow> (Material \<Rightarrow> real option) \<Rightarrow> Material list \<Rightarrow> Material \<Rightarrow> real option" where
  "reference_score hib field pm m = spec_score hib (field m) (List.map_filter field pm)"

section \<open>Properties of the beam solver\<close>

text \<open>
  C8. Degenerate beams give a silent zero: whatever a and x are, the deflection function
  returns 0 and logs nothing when E = 0 or I = 0 or L = 0, and the maximum function
  returns the record with maxDeflection 0 and location L/2, logging nothing, when
  P = 0 or E = 0 or I = 0 or L = 0.
\<close>

theorem degenerate_beam_silent_zero:
  "(E = 0 \<or> I = 0 \<or> L = 0 \<longrightarrow>
      calculateSimpleBeamPointLoadDeflection L P E I a x = ([], 0)) \<and>
   (P = 0 \<or> E = 0 \<or> I = 0 \<or> L = 0 \<longrightarrow>
      calculateSimpleBeamMaxDeflection L P E I a =
        ([], Some \<lparr>maxDeflection = 0, location = L / 2\<rparr>))"
  by (auto simp add: calculateSimpleBeamPointLoadDeflection_def
        calculateSimpleBeamMaxDeflection_def)

theorem degenerate_beam_silent_zero_witness:
  "calculateSimpleBeamPointLoadDeflection 2 1000 0 1 (1/2) 1 = ([], 0) \<and>
   calculateSimpleBeamMaxDeflection 2 0 1 1 (1/2) =
     ([], Some \<lparr>maxDeflection = 0, location = 1\<rparr>)"
  using degenerate_beam_silent_zero [of 0 1 2 1000 "1/2" 1]
    degenerate_beam_silent_zero [of 1 1 2 0 "1/2" 1]
  by simp

subsection \<open>Bounds of the location of the maximum\<close>

lemma x_max_left:
  assumes "0 < a" "a < L" "a \<le> L - a"
  shows "0 < sqrt ((L * L - (L - a) * (L - a)) / 3)" "sqrt ((L * L - (L - a) * (L - a)) / 3) < L"
proof -
  have e: "L * L - (L - a) * (L - a) = a * (2 * L - a)" by algebra
  have p: "0 < a * (2 * L - a)" using assms by simp
  show "0 < sqrt ((L * L - (L - a) * (L - a)) / 3)" using p e by simp
  have "a * (2 * L - a) < 3 * (L * L)"
  proof -
    have "a * (2 * L - a) < L * (2 * L)" using assms by (intro mult_strict_mono) auto
    moreover have "0 \<le> L * L" by simp
    ultimately show ?thesis by linarith
  qed
  then have "(L * L - (L - a) * (L - a)) / 3 < L\<^sup>2" using e by (simp add: power2_eq_square)
  then have "sqrt ((L * L - (L - a) * (L - a)) / 3) < sqrt (L\<^sup>2)" by (simp only: real_sqrt_less_iff)
  then show "sqrt ((L * L - (L - a) * (L - a)) / 3) < L" using assms by simp
qed

lemma x_max_right:
  assumes "0 < a" "a < L"
  shows "0 < sqrt ((L * L - a * a) / 3)" "sqrt ((L * L - a * a) / 3) < L"
proof -
  have p: "a * a < L * L" using assms by (intro mult_strict_mono) auto
  then show "0 < sqrt ((L * L - a * a) / 3)" by simp
  have "0 \<le> a * a" by simp
  with p have "L * L - a * a < 3 * (L * L)" by linarith
  then have "(L * L - a * a) / 3 < L\<^sup>2" by (simp add: power2_eq_square)
  then have "sqrt ((L * L - a * a) / 3) < sqrt (L\<^sup>2)" by (simp only: real_sqrt_less_iff)
  then show "sqrt ((L * L - a * a) / 3) < L" using assms by simp
qed

lemma x_max_bounds: "0 < a \<Longrightarrow> a < L \<Longrightarrow> 0 < x_max L a \<and> x_max L a < L"
  using x_max_left [of a L] x_max_right [of a L]
  by (auto simp add: x_max_def Let_def)

text \<open>
  C3. With E, I, L and P nonzero and 0 < a < L, the maximum function returns the location
  sqrt ((L^2 - b^2) / 3), b = L - a, when a \<le> b, and L - sqrt ((L^2 - a^2) / 3) otherwise;
  the location lies strictly between 0 and L, and the returned deflection is the value of
  the deflection function at that location.
\<close>

theorem max_deflection_location:
  assumes "E \<noteq> 0" "I \<noteq> 0" "L \<noteq> 0" "P \<noteq> 0" "0 < a" "a < L"
    and "xs = (if a \<le> L - a then sqrt ((L\<^sup>2 - (L - a)\<^sup>2) / 3)
               else L - sqrt ((L\<^sup>2 - a\<^sup>2) / 3))"
  shows "snd (calculateSimpleBeamMaxDeflection L P E I a) =
           Some \<lparr>maxDeflection = deflectionAt L P E I a xs, location = xs\<rparr>
         \<and> 0 < xs \<and> xs < L"
proof -
  have x: "x_max L a = xs"
    by (simp add: x_max_def assms(7) Let_def power2_eq_square)
  have "snd (calculateSimpleBeamMaxDeflection L P E I a) =
          Some \<lparr>maxDeflection = deflectionAt L P E I a (x_max L a), location = x_max L a\<rparr>"
    using assms(1-6)
    by (simp add: calculateSimpleBeamMaxDeflection_def deflectionAt_def split_beta)
  moreover have "0 < x_max L a \<and> x_max L a < L"
    using assms(5,6) by (rule x_max_bounds)
  ultimately show ?thesis by (simp add: x)
qed

theorem max_deflection_location_witness:
  "snd (calculateSimpleBeamMaxDeflection 2 1000 1 1 1) =
     Some \<lparr>maxDeflection = deflectionAt 2 1000 1 1 1 1, location = 1\<rparr>
   \<and> (0::real) < 1 \<and> (1::real) < 2"
  using max_deflection_location [of 1 1 2 1000 1 1] by simp

text \<open>
  C10. Under the preconditions of the maximum function (E, I, L, P nonzero, 0 < a < L) the
  location it computes lies in [0, L]: the call of the deflection function inside it logs
  nothing, none of its three early returns is taken, and the returned deflection is the
  value of one of the two branch formulas.
\<close>

theorem max_deflection_inner_call_valid:
  assumes "E \<noteq> 0" "I \<noteq> 0" "L \<noteq> 0" "P \<noteq> 0" "0 < a" "a < L"
  shows "0 \<le> x_max L a \<and> x_max L a \<le> L \<and>
         calculateSimpleBeamMaxDeflection L P E I a =
           ([], Some \<lparr>maxDeflection =
                   (if x_max L a \<le> a
                    then (P * (L - a) * x_max L a) / (6 * E * I * L)
                           * (L * L - (L - a) * (L - a) - x_max L a * x_max L a)
                    else (P * a * (L - x_max L a)) / (6 * E * I * L)
                           * (L * L - a * a - (L - x_max L a) * (L - x_max L a))),
                 location = x_max L a\<rparr>)"
proof -
  have b: "0 < x_max L a \<and> x_max L a < L"
    using assms(5,6) by (rule x_max_bounds)
  then show ?thesis
    using assms
    by (simp add: calculateSimpleBeamMaxDeflection_def
          calculateSimpleBeamPointLoadDeflection_def Let_def)
qed

theorem max_deflection_inner_call_valid_witness:
  "calculateSimpleBeamMaxDeflection 2 48 1 1 1 = ([], Some \<lparr>maxDeflection = 8, location = 1\<rparr>)"
  using max_deflection_inner_call_valid [of 1 1 2 48 1]
  by (simp add: x_max_def)

lemma deflection_in_span:
  assumes "E \<noteq> 0" "I \<noteq> 0" "0 < L" "0 \<le> a" "a \<le> L" "0 \<le> x" "x \<le> L"
  shows "deflectionAt L P E I a x =
           (if x \<le> a
            then (P * (L - a) * x) / (6 * E * I * L) * (L * L - (L - a) * (L - a) - x * x)
            else (P * a * (L - x)) / (6 * E * I * L) * (L * L - a * a - (L - x) * (L - x)))"
  using assms
  by (simp add: deflectionAt_def calculateSimpleBeamPointLoadDeflection_def Let_def)

text \<open>
  C6. Continuity at the load point: for 0 \<le> a \<le> L and E * I * L nonzero, the formula of
  the branch left of the load and the formula of the branch right of it have the same
  value at x = a, which is the value the function returns there; the function is
  continuous in x on the whole span.
\<close>

theorem deflection_continuous_at_load:
  assumes "0 \<le> a" "a \<le> L" "E * I * L \<noteq> 0"
  shows "(P * (L - a) * a) / (6 * E * I * L) * (L\<^sup>2 - (L - a)\<^sup>2 - a\<^sup>2) =
           (P * a * (L - a)) / (6 * E * I * L) * (L\<^sup>2 - a\<^sup>2 - (L - a)\<^sup>2)
         \<and> deflectionAt L P E I a a =
           (P * a * (L - a)) / (6 * E * I * L) * (L\<^sup>2 - a\<^sup>2 - (L - a)\<^sup>2)
         \<and> continuous_on {0..L} (\<lambda>x. deflectionAt L P E I a x)"
proof -
  have nz: "E \<noteq> 0" "I \<noteq> 0" "L \<noteq> 0" using assms(3) by auto
  then have L: "0 < L" using assms(1,2) by simp
  let ?f = "\<lambda>x. (P * (L - a) * x) / (6 * E * I * L) * (L * L - (L - a) * (L - a) - x * x)"
  let ?g = "\<lambda>x. (P * a * (L - x)) / (6 * E * I * L) * (L * L - a * a - (L - x) * (L - x))"
  have agree: "?f a = ?g a" by (simp add: algebra_simps)
  have at_a: "deflectionAt L P E I a a = ?g a"
    using deflection_in_span [OF nz(1,2) L assms(1,2) assms(1,2), of P] agree by simp
  have "continuous_on ({0..a} \<union> {a..L}) (\<lambda>x. if x \<le> a then ?f x else ?g x)"
  proof (rule continuous_on_If)
    show "closed {0..a}" "closed {a..L}" by simp_all
    show "continuous_on {0..a} ?f" by (intro continuous_intros) (simp add: nz)
    show "continuous_on {a..L} ?g" by (intro continuous_intros) (simp add: nz)
    show "\<And>x. x \<in> {0..a} \<Longrightarrow> \<not> x \<le> a \<Longrightarrow> ?f x = ?g x" by simp
    show "\<And>x. x \<in> {a..L} \<Longrightarrow> x \<le> a \<Longrightarrow> ?f x = ?g x"
    proof -
      fix x assume "x \<in> {a..L}" "x \<le> a"
      then have "x = a" by simp
      then show "?f x = ?g x" using agree by simp
    qed
  qed
  moreover have "{0..a} \<union> {a..L} = {0..L}" using assms(1,2) by auto
  ultimately have c: "continuous_on {0..L} (\<lambda>x. if x \<le> a then ?f x else ?g x)" by simp
  have "continuous_on {0..L} (\<lambda>x. deflectionAt L P E I a x) \<longleftrightarrow>
        continuous_on {0..L} (\<lambda>x. if x \<le> a then ?f x else ?g x)"
  proof (rule continuous_on_cong)
    show "{0..L} = {0..L}" ..
    fix x assume "x \<in> {0..L}"
    then show "deflectionAt L P E I a x = (if x \<le> a then ?f x else ?g x)"
      using deflection_in_span [OF nz(1,2) L assms(1,2), of x P] by simp
  qed
  with c have "continuous_on {0..L} (\<lambda>x. deflectionAt L P E I a x)" by (rule iffD2 [rotated])
  then show ?thesis using at_a agree by (simp add: power2_eq_square)
qed

theorem deflection_continuous_at_load_witness:
  "deflectionAt 2 48 1 1 1 1 = 8 \<and> continuous_on {0..2} (\<lambda>x. deflectionAt 2 48 1 1 1 x)"
  using deflection_continuous_at_load [of 1 2 1 1 48] by simp

text \<open>
  C7, as stated for every L with E * I * L nonzero, fails for a negative span: the load
  position L/2 is then negative, and the function logs an error and returns 0.
\<close>

theorem center_load_negative_span_counterexample:
  "deflectionAt (-2) 1 1 1 (-2 / 2) (-2 / 2) \<noteq> 1 * (-2) ^ 3 / (48 * 1 * 1)"
  by (simp add: deflectionAt_def calculateSimpleBeamPointLoadDeflection_def)

text \<open>
  C7, amended. For every span L > 0 and E * I nonzero, the deflection at the centre under a
  centre load is P * L^3 / (48 * E * I), and the deprecated function
  calculateBeamDeflection returns that value.
\<close>

theorem center_load_closed_form:
  assumes "0 < L" "E * I \<noteq> 0"
  shows "deflectionAt L P E I (L / 2) (L / 2) = P * L ^ 3 / (48 * E * I)
         \<and> snd (calculateBeamDeflection L P E I) = P * L ^ 3 / (48 * E * I)"
proof -
  have nz: "E \<noteq> 0" "I \<noteq> 0" using assms(2) by auto
  have "deflectionAt L P E I (L / 2) (L / 2) =
          (P * (L - L / 2) * (L / 2)) / (6 * E * I * L)
            * (L * L - (L - L / 2) * (L - L / 2) - (L / 2) * (L / 2))"
    using deflection_in_span [OF nz assms(1), of "L / 2" "L / 2" P] assms(1) by simp
  also have "\<dots> = P * L ^ 3 / (48 * E * I)"
    using nz assms(1) by (simp add: field_simps power3_eq_cube)
  finally have d: "deflectionAt L P E I (L / 2) (L / 2) = P * L ^ 3 / (48 * E * I)" .
  then show ?thesis by (simp add: calculateBeamDeflection_def deflectionAt_def)
qed

theorem center_load_closed_form_witness:
  "deflectionAt 2 48 1 1 (2 / 2) (2 / 2) = 48 * 2 ^ 3 / (48 * 1 * 1)
   \<and> snd (calculateBeamDeflection 2 48 1 1) = 48 * 2 ^ 3 / (48 * 1 * 1)"
  using center_load_closed_form [of 2 1 1 48] by simp

text \<open>
  C2, as stated, fails: at x = L + 0.001 the deflection function logs a line and returns
  the number 0, the number it also returns at the valid point x = 0; with E = 0 the
  maximum function returns its degenerate record for a load at the support a = 0.
\<close>

theorem out_of_range_not_rejected_counterexample:
  "calculateSimpleBeamPointLoadDeflection 2 1000 200000000000 (833 / 100000000) 1 (2001 / 1000)
     = ([''Calculation point 'x' must be between 0 and L.''], 0)
   \<and> deflectionAt 2 1000 200000000000 (833 / 100000000) 1 (2001 / 1000)
     = deflectionAt 2 1000 200000000000 (833 / 100000000) 1 0
   \<and> calculateSimpleBeamMaxDeflection 2 1000 0 (833 / 100000000) 0
     = ([], Some \<lparr>maxDeflection = 0, location = 1\<rparr>)"
  by (simp add: deflectionAt_def calculateSimpleBeamPointLoadDeflection_def
        calculateSimpleBeamMaxDeflection_def)

text \<open>
  C2, amended. Out-of-range positions are logged and defaulted, not rejected: the
  deflection function returns 0 whenever a or x lies outside [0, L], after writing one
  line to the console when E, I and L are nonzero (the line for a when a is out of range,
  else the line for x); the maximum function writes one line and returns null when
  a \<le> 0 or a \<ge> L and E, I, L and P are nonzero.
\<close>

theorem out_of_range_logged_and_defaulted:
  "(a < 0 \<or> a > L \<or> x < 0 \<or> x > L \<longrightarrow> deflectionAt L P E I a x = 0) \<and>
   (E \<noteq> 0 \<and> I \<noteq> 0 \<and> L \<noteq> 0 \<and> (a < 0 \<or> a > L) \<longrightarrow>
      calculateSimpleBeamPointLoadDeflection L P E I a x =
        ([''Load position 'a' must be between 0 and L.''], 0)) \<and>
   (E \<noteq> 0 \<and> I \<noteq> 0 \<and> L \<noteq> 0 \<and> 0 \<le> a \<and> a \<le> L \<and> (x < 0 \<or> x > L) \<longrightarrow>
      calculateSimpleBeamPointLoadDeflection L P E I a x =
        ([''Calculation point 'x' must be between 0 and L.''], 0)) \<and>
   (E \<noteq> 0 \<and> I \<noteq> 0 \<and> L \<noteq> 0 \<and> P \<noteq> 0 \<and> (a \<le> 0 \<or> a \<ge> L) \<longrightarrow>
      calculateSimpleBeamMaxDeflection L P E I a =
        ([''Load position 'a' must be between 0 and L (exclusive).''], None))"
  by (auto simp add: deflectionAt_def calculateSimpleBeamPointLoadDeflection_def
        calculateSimpleBeamMaxDeflection_def)

theorem out_of_range_logged_and_defaulted_witness:
  "deflectionAt 2 1000 1 1 1 3 = 0 \<and>
   calculateSimpleBeamPointLoadDeflection 2 1000 1 1 (-1) 3 =
     ([''Load position 'a' must be between 0 and L.''], 0) \<and>
   calculateSimpleBeamPointLoadDeflection 2 1000 1 1 1 3 =
     ([''Calculation point 'x' must be between 0 and L.''], 0) \<and>
   calculateSimpleBeamMaxDeflection 2 1000 1 1 0 =
     ([''Load position 'a' must be between 0 and L (exclusive).''], None)"
  using out_of_range_logged_and_defaulted [of 1 2 3 1000 1 1]
    out_of_range_logged_and_defaulted [of "-1" 2 3 1000 1 1]
    out_of_range_logged_and_defaulted [of 0 2 3 1000 1 1]
  by simp

section \<open>Properties of the normaliser\<close>

subsection \<open>The extremum pass\<close>

lemma set_numbers: "set (numbers vs) = {r. Some r \<in> set vs}"
  by (induction vs) (auto split: option.splits)

lemma set_values_of:
  "set (values_of pm k) = {r. \<exists>m \<in> set pm. index_number m k = Some r}"
  by (auto simp add: values_of_def set_numbers image_iff) (metis)

lemma values_of_cong_set:
  assumes "set pm' = set pm"
  shows "set (values_of pm' k) = set (values_of pm k)"
  by (simp add: set_values_of assms)

lemma minMaxStep_cong_set:
  assumes "set pm' = set pm"
  shows "minMaxStep pm' = minMaxStep pm"
proof -
  have s: "\<And>k. set (values_of pm' k) = set (values_of pm k)"
    using assms by (rule values_of_cong_set)
  have e: "(values_of pm' k = []) = (values_of pm k = [])" for k
    using s [of k] by (simp only: set_empty [symmetric])
  show ?thesis
    by (intro ext) (simp add: minMaxStep_def Let_def s e)
qed

lemma minMaxPass_cong_set: "set pm' = set pm \<Longrightarrow> minMaxPass pm' = minMaxPass pm"
  using minMaxStep_cong_set [of pm' pm] by (simp add: minMaxPass_def)

lemma minMaxStep_lookup:
  "fst (minMaxStep pm p mm) (key p) = Some (stored_min pm (key p)) \<and>
   snd (minMaxStep pm p mm) (key p) = Some (stored_max pm (key p))"
  by (simp add: minMaxStep_def Let_def stored_min_def stored_max_def)

lemma minMaxStep_keeps:
  assumes "fst mm k = Some (stored_min pm k)" "snd mm k = Some (stored_max pm k)"
  shows "fst (minMaxStep pm q mm) k = Some (stored_min pm k) \<and>
         snd (minMaxStep pm q mm) k = Some (stored_max pm k)"
  using assms by (simp add: minMaxStep_def Let_def stored_min_def stored_max_def)

lemma fold_minMaxStep_keeps:
  assumes "fst mm k = Some (stored_min pm k)" "snd mm k = Some (stored_max pm k)"
  shows "fst (fold (minMaxStep pm) ps mm) k = Some (stored_min pm k) \<and>
         snd (fold (minMaxStep pm) ps mm) k = Some (stored_max pm k)"
  using assms
proof (induction ps arbitrary: mm)
  case Nil
  then show ?case by simp
next
  case (Cons q qs)
  have "fst (minMaxStep pm q mm) k = Some (stored_min pm k) \<and>
        snd (minMaxStep pm q mm) k = Some (stored_max pm k)"
    using Cons.prems by (rule minMaxStep_keeps)
  then show ?case using Cons.IH [of "minMaxStep pm q mm"] by simp
qed

lemma fold_minMaxStep_lookup:
  assumes "p \<in> set ps"
  shows "fst (fold (minMaxStep pm) ps mm) (key p) = Some (stored_min pm (key p)) \<and>
         snd (fold (minMaxStep pm) ps mm) (key p) = Some (stored_max pm (key p))"
  using assms
proof (induction ps arbitrary: mm)
  case Nil
  then show ?case by simp
next
  case (Cons q qs)
  show ?case
  proof (cases "p \<in> set qs")
    case True
    then show ?thesis using Cons.IH [of "minMaxStep pm q mm"] by simp
  next
    case False
    then have "q = p" using Cons.prems by simp
    then show ?thesis
      using fold_minMaxStep_keeps [of "minMaxStep pm p mm" "key p" pm qs]
        minMaxStep_lookup [of pm p mm]
      by simp
  qed
qed

lemma minMaxPass_lookup:
  assumes "p \<in> set radarProperties"
  shows "fst (minMaxPass pm) (key p) = Some (stored_min pm (key p))"
    and "snd (minMaxPass pm) (key p) = Some (stored_max pm (key p))"
  using fold_minMaxStep_lookup [OF assms, of pm "(Map.empty, Map.empty)"]
  by (simp_all add: minMaxPass_def)

lemma value_between_extrema:
  assumes "m \<in> set pm" "index_number m k = Some r"
  shows "values_of pm k \<noteq> []" "Min (set (values_of pm k)) \<le> r" "r \<le> Max (set (values_of pm k))"
proof -
  have r: "r \<in> set (values_of pm k)" using assms by (auto simp add: set_values_of)
  then show "values_of pm k \<noteq> []" by auto
  show "Min (set (values_of pm k)) \<le> r" using r by (intro Min_le) simp_all
  show "r \<le> Max (set (values_of pm k))" using r by (intro Max_ge) simp_all
qed

lemma normalizedValue_spec:
  assumes "p \<in> set radarProperties" "m \<in> set pm"
  shows "spec_score (higherIsBetter p) (index_number m (key p)) (values_of pm (key p)) =
           Some (normalizedValue (minMaxPass pm) p m)"
proof (cases "index_number m (key p)")
  case None
  then show ?thesis by (simp add: spec_score_def normalizedValue_def)
next
  case (Some r)
  note b = value_between_extrema [OF assms(2) Some]
  have mn: "fst (minMaxPass pm) (key p) = Some (Min (set (values_of pm (key p))))"
    using minMaxPass_lookup(1) [OF assms(1), of pm] b(1) by (simp add: stored_min_def)
  have mx: "snd (minMaxPass pm) (key p) = Some (Max (set (values_of pm (key p))))"
    using minMaxPass_lookup(2) [OF assms(1), of pm] b(1) by (simp add: stored_max_def)
  have "Max (set (values_of pm (key p))) = Min (set (values_of pm (key p)))
        \<Longrightarrow> r = Min (set (values_of pm (key p)))"
    using b(2,3) by simp
  moreover have "\<not> Min (set (values_of pm (key p))) < Max (set (values_of pm (key p)))
        \<Longrightarrow> Max (set (values_of pm (key p))) = Min (set (values_of pm (key p)))"
    using b(2,3) by simp
  ultimately show ?thesis
    by (simp add: spec_score_def normalizedValue_def Some mn mx Let_def)
qed

lemma normalizedValue_range:
  assumes "p \<in> set radarProperties" "m \<in> set pm"
  shows "0 \<le> normalizedValue (minMaxPass pm) p m \<and> normalizedValue (minMaxPass pm) p m \<le> 100"
proof (cases "index_number m (key p)")
  case None
  then show ?thesis by (simp add: normalizedValue_def)
next
  case (Some r)
  note b = value_between_extrema [OF assms(2) Some]
  define mn where "mn = Min (set (values_of pm (key p)))"
  define mx where "mx = Max (set (values_of pm (key p)))"
  have mn: "fst (minMaxPass pm) (key p) = Some mn"
    using minMaxPass_lookup(1) [OF assms(1), of pm] b(1) by (simp add: stored_min_def mn_def)
  have mx: "snd (minMaxPass pm) (key p) = Some mx"
    using minMaxPass_lookup(2) [OF assms(1), of pm] b(1) by (simp add: stored_max_def mx_def)
  have le: "mn \<le> r" "r \<le> mx" using b(2,3) by (simp_all add: mn_def mx_def)
  have frac: "0 \<le> (r - mn) / (mx - mn) * 100 \<and> (r - mn) / (mx - mn) * 100 \<le> 100" if "mx - mn > 0"
  proof -
    have "0 \<le> (r - mn) / (mx - mn)" using le that by simp
    moreover have "(r - mn) / (mx - mn) \<le> 1" using le that by (simp add: field_simps)
    ultimately have "0 \<le> (r - mn) / (mx - mn) * 100" "(r - mn) / (mx - mn) * 100 \<le> 1 * 100"
      by (simp_all only: mult_right_mono zero_le_mult_iff) simp_all
    then show ?thesis by simp
  qed
  have nv: "normalizedValue (minMaxPass pm) p m =
          (if mx - mn > 0
           then (if \<not> higherIsBetter p then 100 - (r - mn) / (mx - mn) * 100
                 else (r - mn) / (mx - mn) * 100)
           else if r = mn then (if higherIsBetter p then 100 else 0) else 50)"
    by (simp add: normalizedValue_def Some mn mx Let_def)
  show ?thesis
  proof (cases "mx - mn > 0")
    case True
    then show ?thesis using frac [OF True] by (simp only: nv) (simp del: times_divide_eq_left)
  next
    case False
    then show ?thesis by (simp add: nv)
  qed
qed

subsection \<open>The axis points\<close>

lemma name_processMaterial: "name (processMaterial m) = name m"
  by (simp add: processMaterial_def Let_def split: option.splits)

lemma names_processedMaterials: "map name (processedMaterials ms) = map name ms"
  by (simp add: processedMaterials_def name_processMaterial)

lemma fold_assign_other:
  "n \<notin> name ` set pm \<or> n = ''__proto__'' \<Longrightarrow>
     fold (\<lambda>mat point. assign_key point (name mat) (g mat)) pm init n = init n"
proof (induction pm arbitrary: init)
  case Nil
  then show ?case by simp
next
  case (Cons q qs)
  have "fold (\<lambda>mat point. assign_key point (name mat) (g mat)) qs
          (assign_key init (name q) (g q)) n = assign_key init (name q) (g q) n"
    using Cons.prems by (intro Cons.IH) auto
  moreover have "assign_key init (name q) (g q) n = init n"
    using Cons.prems by (auto simp add: assign_key_def)
  ultimately show ?case by (simp only: fold_simps o_apply)
qed

lemma fold_assign_lookup:
  assumes "distinct (map name pm)" "m \<in> set pm" "name m \<noteq> ''__proto__''"
  shows "fold (\<lambda>mat point. assign_key point (name mat) (g mat)) pm init (name m) = Some (g m)"
  using assms(1,2)
proof (induction pm arbitrary: init)
  case Nil
  then show ?case by simp
next
  case (Cons q qs)
  show ?case
  proof (cases "m = q")
    case True
    have "name q \<notin> name ` set qs" using Cons.prems(1) by simp
    then have "fold (\<lambda>mat point. assign_key point (name mat) (g mat)) qs
                 (assign_key init (name q) (g q)) (name q)
                = assign_key init (name q) (g q) (name q)"
      by (intro fold_assign_other) simp
    moreover have "assign_key init (name q) (g q) (name q) = Some (g q)"
      using assms(3) True by (simp add: assign_key_def)
    ultimately show ?thesis using True by (simp only: fold_simps o_apply)
  next
    case False
    then have "m \<in> set qs" "distinct (map name qs)" using Cons.prems by simp_all
    then show ?thesis
      using Cons.IH [of "assign_key init (name q) (g q)"] by (simp only: fold_simps o_apply)
  qed
qed

lemma axisPoint_lookup:
  assumes "distinct (map name pm)" "m \<in> set pm" "name m \<noteq> ''__proto__''"
  shows "axisPoint mm pm p (name m) = Some (Num (normalizedValue mm p m))"
  unfolding axisPoint_def
  using fold_assign_lookup [OF assms, of "\<lambda>mat. Num (normalizedValue mm p mat)"] .

lemma axisPoint_proto: "axisPoint mm pm p ''__proto__'' = None"
proof -
  have "fold (\<lambda>mat point. assign_key point (name mat) (Num (normalizedValue mm p mat))) pm
          [''subject'' \<mapsto> Str (label p), ''fullMark'' \<mapsto> Num 100] ''__proto__''
        = [''subject'' \<mapsto> Str (label p), ''fullMark'' \<mapsto> Num 100] ''__proto__''"
    by (intro fold_assign_other) simp
  then show ?thesis by (simp add: axisPoint_def)
qed

lemma assign_commute:
  assumes "distinct (map name pm)" "x \<in> set pm" "y \<in> set pm"
  shows "(\<lambda>point. assign_key point (name x) (g x)) \<circ> (\<lambda>point. assign_key point (name y) (g y)) =
         (\<lambda>point. assign_key point (name y) (g y)) \<circ> (\<lambda>point. assign_key point (name x) (g x))"
proof (cases "x = y")
  case True
  then show ?thesis by simp
next
  case False
  then have "name x \<noteq> name y"
    using assms by (meson distinct_map inj_onD)
  then show ?thesis by (auto simp add: fun_eq_iff assign_key_def)
qed

lemma axisPoint_permutation:
  assumes "mset pm' = mset pm" "distinct (map name pm)"
  shows "axisPoint mm pm' p = axisPoint mm pm p"
proof -
  have "fold (\<lambda>mat point. assign_key point (name mat) (Num (normalizedValue mm p mat))) pm =
        fold (\<lambda>mat point. assign_key point (name mat) (Num (normalizedValue mm p mat))) pm'"
  proof (rule fold_multiset_equiv)
    show "mset pm = mset pm'" using assms(1) by simp
    fix x y assume "x \<in> set pm" "y \<in> set pm"
    then show "(\<lambda>point. assign_key point (name x) (Num (normalizedValue mm p x))) \<circ>
               (\<lambda>point. assign_key point (name y) (Num (normalizedValue mm p y))) =
               (\<lambda>point. assign_key point (name y) (Num (normalizedValue mm p y))) \<circ>
               (\<lambda>point. assign_key point (name x) (Num (normalizedValue mm p x)))"
      using assign_commute [OF assms(2), of x y "\<lambda>mat. Num (normalizedValue mm p mat)"] by simp
  qed
  then show ?thesis by (simp add: axisPoint_def)
qed

lemma numbers_map_filter: "numbers (map f xs) = List.map_filter f xs"
  by (induction xs) (simp_all split: option.splits)

lemma axis_reference:
  assumes "p \<in> set radarProperties" "m \<in> set pm"
    and "\<And>x. index_number x (key p) = field x"
  shows "reference_score (higherIsBetter p) field pm m =
           Some (normalizedValue (minMaxPass pm) p m)"
proof -
  have "(\<lambda>mat. index_number mat (key p)) = field" using assms(3) by (intro ext)
  then have "values_of pm (key p) = List.map_filter field pm"
    by (simp add: values_of_def numbers_map_filter)
  then show ?thesis
    using normalizedValue_spec [OF assms(1,2)] assms(3) by (simp add: reference_score_def)
qed

lemma stored_extrema_entire_set:
  assumes "values_of pm k \<noteq> []"
  shows "stored_min pm k = Min {r. \<exists>m \<in> set pm. index_number m k = Some r}"
    and "stored_max pm k = Max {r. \<exists>m \<in> set pm. index_number m k = Some r}"
  using assms by (simp_all add: stored_min_def stored_max_def set_values_of)

text \<open>
  C4. For every material of the input, the values that the scoring pass computes on the
  seven axes of the radar chart are the scores of the reference rule on the fields
  youngsModulus, ultimateTensileStrength, yieldStrength, density (lower is better),
  specificModulus, specificStrength and thermalExpansionCoefficient (lower is better):
  (value - min) / (max - min) * 100, inverted for an axis where lower is better, when
  max > min; 100 or 0 by the direction of the axis when max = min; 50 when the material
  has no value on the axis. Every score lies in [0, 100]. The pass reads a minimum and a
  maximum that are defined for every axis and returns one axis point for each axis; with
  distinct material names, the axis point holds the score under the material's name,
  except under the name __proto__, where the assignment stores nothing.
\<close>

theorem scoring_pass_matches_reference:
  assumes "mat \<in> set materials"
    and "pm = processedMaterials materials" "m = processMaterial mat" "mm = minMaxPass pm"
  shows "map (\<lambda>p. Some (normalizedValue mm p m)) radarProperties =
           [reference_score True youngsModulus pm m,
            reference_score True ultimateTensileStrength pm m,
            reference_score True yieldStrength pm m,
            reference_score False density pm m,
            reference_score True specificModulus pm m,
            reference_score True specificStrength pm m,
            reference_score False thermalExpansionCoefficient pm m]
         \<and> (\<forall>p \<in> set radarProperties.
               0 \<le> normalizedValue mm p m \<and> normalizedValue mm p m \<le> 100 \<and>
               fst mm (key p) \<noteq> None \<and> snd mm (key p) \<noteq> None)
         \<and> length (normalizedData materials) = length radarProperties
         \<and> (distinct (map name materials) \<longrightarrow>
              (\<forall>i < length radarProperties.
                 (normalizedData materials ! i) (name mat) =
                   (if name mat = ''__proto__'' then None
                    else Some (Num (normalizedValue mm (radarProperties ! i) m)))))"
proof -
  have m: "m \<in> set pm" using assms(1,2,3) by (simp add: processedMaterials_def)
  have r1: "reference_score True youngsModulus pm m =
      Some (normalizedValue (minMaxPass pm)
        \<lparr>key = ''youngsModulus'', label = ''E Modulus'', higherIsBetter = True\<rparr> m)"
    using axis_reference [OF _ m, of
        "\<lparr>key = ''youngsModulus'', label = ''E Modulus'', higherIsBetter = True\<rparr>"
        youngsModulus]
    by (simp add: radarProperties_def index_number_def)
  have r2: "reference_score True ultimateTensileStrength pm m =
      Some (normalizedValue (minMaxPass pm)
        \<lparr>key = ''ultimateTensileStrength'', label = ''UTS'', higherIsBetter = True\<rparr> m)"
    using axis_reference [OF _ m, of
        "\<lparr>key = ''ultimateTensileStrength'', label = ''UTS'', higherIsBetter = True\<rparr>"
        ultimateTensileStrength]
    by (simp add: radarProperties_def index_number_def)
  have r3: "reference_score True yieldStrength pm m =
      Some (normalizedValue (minMaxPass pm)
        \<lparr>key = ''yieldStrength'', label = ''Yield Str.'', higherIsBetter = True\<rparr> m)"
    using axis_reference [OF _ m, of
        "\<lparr>key = ''yieldStrength'', label = ''Yield Str.'', higherIsBetter = True\<rparr>"
        yieldStrength]
    by (simp add: radarProperties_def index_number_def)
  have r4: "reference_score False density pm m =
      Some (normalizedValue (minMaxPass pm)
        \<lparr>key = ''density'', label = ''Density'', higherIsBetter = False\<rparr> m)"
    using axis_reference [OF _ m, of
        "\<lparr>key = ''density'', label = ''Density'', higherIsBetter = False\<rparr>"
        density]
    by (simp add: radarProperties_def index_number_def)
  have r5: "reference_score True specificModulus pm m =
      Some (normalizedValue (minMaxPass pm)
        \<lparr>key = ''specificModulus'', label = ''Specific Mod.'', higherIsBetter = True\<rparr> m)"
    using axis_reference [OF _ m, of
        "\<lparr>key = ''specificModulus'', label = ''Specific Mod.'', higherIsBetter = True\<rparr>"
        specificModulus]
    by (simp add: radarProperties_def index_number_def)
  have r6: "reference_score True specificStrength pm m =
      Some (normalizedValue (minMaxPass pm)
        \<lparr>key = ''specificStrength'', label = ''Specific Str.'', higherIsBetter = True\<rparr> m)"
    using axis_reference [OF _ m, of
        "\<lparr>key = ''specificStrength'', label = ''Specific Str.'', higherIsBetter = True\<rparr>"
        specificStrength]
    by (simp add: radarProperties_def index_number_def)
  have r7: "reference_score False thermalExpansionCoefficient pm m =
      Some (normalizedValue (minMaxPass pm)
        \<lparr>key = ''thermalExpansionCoefficient'', label = ''Therm. Exp.'',
           higherIsBetter = False\<rparr> m)"
    using axis_reference [OF _ m, of
        "\<lparr>key = ''thermalExpansionCoefficient'', label = ''Therm. Exp.'',
           higherIsBetter = False\<rparr>"
        thermalExpansionCoefficient]
    by (simp add: radarProperties_def index_number_def)
  have scores: "map (\<lambda>p. Some (normalizedValue mm p m)) radarProperties =
           [reference_score True youngsModulus pm m,
            reference_score True ultimateTensileStrength pm m,
            reference_score True yieldStrength pm m,
            reference_score False density pm m,
            reference_score True specificModulus pm m,
            reference_score True specificStrength pm m,
            reference_score False thermalExpansionCoefficient pm m]"
    unfolding r1 r2 r3 r4 r5 r6 r7 by (simp add: radarProperties_def assms(4))
  have range: "0 \<le> normalizedValue mm p m \<and> normalizedValue mm p m \<le> 100 \<and>
               fst mm (key p) \<noteq> None \<and> snd mm (key p) \<noteq> None"
    if p: "p \<in> set radarProperties" for p
    using normalizedValue_range [OF p m] minMaxPass_lookup [OF p, of pm] assms(4) by simp
  have len: "length (normalizedData materials) = length radarProperties"
    by (simp add: normalizedData_def Let_def)
  have chart: "(normalizedData materials ! i) (name mat) =
                 (if name mat = ''__proto__'' then None
                  else Some (Num (normalizedValue mm (radarProperties ! i) m)))"
    if d: "distinct (map name materials)" and i: "i < length radarProperties" for i
  proof -
    have nd: "normalizedData materials ! i = axisPoint mm pm (radarProperties ! i)"
      using i assms(2,4) by (simp add: normalizedData_def Let_def)
    have nm: "name m = name mat" using assms(3) by (simp add: name_processMaterial)
    show ?thesis
    proof (cases "name mat = ''__proto__''")
      case True
      then show ?thesis using axisPoint_proto [of mm pm "radarProperties ! i"] by (simp add: nd)
    next
      case False
      have "distinct (map name pm)" using d assms(2) by (simp add: names_processedMaterials)
      then have "axisPoint mm pm (radarProperties ! i) (name m) =
                   Some (Num (normalizedValue mm (radarProperties ! i) m))"
        using m False nm by (intro axisPoint_lookup) simp_all
      then show ?thesis using False by (simp add: nd nm)
    qed
  qed
  show ?thesis using scores range len chart by blast
qed

text \<open>
  C5. The minimum and maximum used for an axis are the minimum and maximum of the defined
  values of all materials of the input. For a permutation of the input the first pass
  stores the same extrema, every material gets the same score on every axis, and, with
  distinct material names, the chart data are the same.
\<close>

theorem extrema_entire_set_permutation_invariant:
  assumes "mset materials' = mset materials" "p \<in> set radarProperties"
    and "pm = processedMaterials materials" "pm' = processedMaterials materials'"
  shows "(values_of pm (key p) \<noteq> [] \<longrightarrow>
            fst (minMaxPass pm) (key p) =
              Some (Min {r. \<exists>m \<in> set pm. index_number m (key p) = Some r}) \<and>
            snd (minMaxPass pm) (key p) =
              Some (Max {r. \<exists>m \<in> set pm. index_number m (key p) = Some r}))
         \<and> minMaxPass pm' = minMaxPass pm
         \<and> normalizedValue (minMaxPass pm') p m = normalizedValue (minMaxPass pm) p m
         \<and> (distinct (map name materials) \<longrightarrow> normalizedData materials' = normalizedData materials)"
proof -
  have ms: "mset pm' = mset pm" using assms(1,3,4) by (simp add: processedMaterials_def)
  then have "set pm' = set pm" by (rule mset_eq_setD)
  then have mm: "minMaxPass pm' = minMaxPass pm" by (rule minMaxPass_cong_set)
  have ex: "fst (minMaxPass pm) (key p) =
              Some (Min {r. \<exists>m \<in> set pm. index_number m (key p) = Some r}) \<and>
            snd (minMaxPass pm) (key p) =
              Some (Max {r. \<exists>m \<in> set pm. index_number m (key p) = Some r})"
    if "values_of pm (key p) \<noteq> []"
    using minMaxPass_lookup [OF assms(2), of pm] stored_extrema_entire_set [OF that] by simp
  have nd: "normalizedData materials' = normalizedData materials"
    if d: "distinct (map name materials)"
  proof -
    have "distinct (map name pm)" using d assms(3) by (simp add: names_processedMaterials)
    then have "axisPoint (minMaxPass pm) pm' q = axisPoint (minMaxPass pm) pm q" for q
      using axisPoint_permutation [OF ms] by simp
    then show ?thesis using mm assms(3,4) by (simp add: normalizedData_def Let_def)
  qed
  show ?thesis using ex mm nd by simp
qed

theorem scoring_pass_matches_reference_witness:
  "map (\<lambda>p. Some (normalizedValue
          (minMaxPass (processedMaterials
             [\<lparr>id' = ''1'', name = ''A'', density = Some 1000, youngsModulus = Some 10, yieldStrength = None, ultimateTensileStrength = None, poissonsRatio = None, shearModulus = None, thermalExpansionCoefficient = None, relativeCost = None, specificStrength = None, specificModulus = None\<rparr>,
      \<lparr>id' = ''2'', name = ''B'', density = Some 2000, youngsModulus = Some 20, yieldStrength = None, ultimateTensileStrength = None, poissonsRatio = None, shearModulus = None, thermalExpansionCoefficient = None, relativeCost = None, specificStrength = None, specificModulus = None\<rparr>,
      \<lparr>id' = ''3'', name = ''C'', density = Some 4000, youngsModulus = Some 30, yieldStrength = None, ultimateTensileStrength = None, poissonsRatio = None, shearModulus = None, thermalExpansionCoefficient = None, relativeCost = None, specificStrength = None, specificModulus = None\<rparr>]))
          p (processMaterial
             \<lparr>id' = ''3'', name = ''C'', density = Some 4000, youngsModulus = Some 30, yieldStrength = None, ultimateTensileStrength = None, poissonsRatio = None, shearModulus = None, thermalExpansionCoefficient = None, relativeCost = None, specificStrength = None, specificModulus = None\<rparr>)))
     radarProperties = [Some 100, Some 50, Some 50, Some 0, Some 0, Some 50, Some 50]
   \<and> map (\<lambda>p. Some (normalizedValue
          (minMaxPass (processedMaterials
             [\<lparr>id' = ''1'', name = ''A'', density = Some 1000, youngsModulus = Some 10, yieldStrength = None, ultimateTensileStrength = None, poissonsRatio = None, shearModulus = None, thermalExpansionCoefficient = None, relativeCost = None, specificStrength = None, specificModulus = None\<rparr>,
      \<lparr>id' = ''2'', name = ''B'', density = Some 2000, youngsModulus = Some 20, yieldStrength = None, ultimateTensileStrength = None, poissonsRatio = None, shearModulus = None, thermalExpansionCoefficient = None, relativeCost = None, specificStrength = None, specificModulus = None\<rparr>,
      \<lparr>id' = ''3'', name = ''C'', density = Some 4000, youngsModulus = Some 30, yieldStrength = None, ultimateTensileStrength = None, poissonsRatio = None, shearModulus = None, thermalExpansionCoefficient = None, relativeCost = None, specificStrength = None, specificModulus = None\<rparr>]))
          p (processMaterial
             \<lparr>id' = ''2'', name = ''B'', density = Some 2000, youngsModulus = Some 20, yieldStrength = None, ultimateTensileStrength = None, poissonsRatio = None, shearModulus = None, thermalExpansionCoefficient = None, relativeCost = None, specificStrength = None, specificModulus = None\<rparr>)))
     radarProperties = [Some 50, Some 50, Some 50, Some (200 / 3), Some 100, Some 50, Some 50]
   \<and> map (\<lambda>p. Some (normalizedValue
          (minMaxPass (processedMaterials
             [\<lparr>id' = ''1'', name = ''A'', density = Some 1000, youngsModulus = Some 10, yieldStrength = None, ultimateTensileStrength = None, poissonsRatio = None, shearModulus = None, thermalExpansionCoefficient = None, relativeCost = None, specificStrength = None, specificModulus = None\<rparr>]))
          p (processMaterial
             \<lparr>id' = ''1'', name = ''A'', density = Some 1000, youngsModulus = Some 10, yieldStrength = None, ultimateTensileStrength = None, poissonsRatio = None, shearModulus = None, thermalExpansionCoefficient = None, relativeCost = None, specificStrength = None, specificModulus = None\<rparr>)))
     radarProperties = [Some 100, Some 50, Some 50, Some 0, Some 100, Some 50, Some 50]
   \<and> (normalizedData
         [\<lparr>id' = ''1'', name = ''A'', density = Some 1000, youngsModulus = Some 10, yieldStrength = None, ultimateTensileStrength = None, poissonsRatio = None, shearModulus = None, thermalExpansionCoefficient = None, relativeCost = None, specificStrength = None, specificModulus = None\<rparr>,
      \<lparr>id' = ''2'', name = ''B'', density = Some 2000, youngsModulus = Some 20, yieldStrength = None, ultimateTensileStrength = None, poissonsRatio = None, shearModulus = None, thermalExpansionCoefficient = None, relativeCost = None, specificStrength = None, specificModulus = None\<rparr>,
      \<lparr>id' = ''3'', name = ''C'', density = Some 4000, youngsModulus = Some 30, yieldStrength = None, ultimateTensileStrength = None, poissonsRatio = None, shearModulus = None, thermalExpansionCoefficient = None, relativeCost = None, specificStrength = None, specificModulus = None\<rparr>] ! 0) ''C'' = Some (Num 100)
   \<and> (normalizedData
         [\<lparr>id' = ''1'', name = ''A'', density = Some 1000, youngsModulus = Some 10, yieldStrength = None, ultimateTensileStrength = None, poissonsRatio = None, shearModulus = None, thermalExpansionCoefficient = None, relativeCost = None, specificStrength = None, specificModulus = None\<rparr>,
      \<lparr>id' = ''2'', name = ''B'', density = Some 2000, youngsModulus = Some 20, yieldStrength = None, ultimateTensileStrength = None, poissonsRatio = None, shearModulus = None, thermalExpansionCoefficient = None, relativeCost = None, specificStrength = None, specificModulus = None\<rparr>,
      \<lparr>id' = ''3'', name = ''C'', density = Some 4000, youngsModulus = Some 30, yieldStrength = None, ultimateTensileStrength = None, poissonsRatio = None, shearModulus = None, thermalExpansionCoefficient = None, relativeCost = None, specificStrength = None, specificModulus = None\<rparr>] ! 3) ''B'' = Some (Num (200 / 3))
   \<and> length (normalizedData
         [\<lparr>id' = ''1'', name = ''A'', density = Some 1000, youngsModulus = Some 10, yieldStrength = None, ultimateTensileStrength = None, poissonsRatio = None, shearModulus = None, thermalExpansionCoefficient = None, relativeCost = None, specificStrength = None, specificModulus = None\<rparr>,
      \<lparr>id' = ''2'', name = ''B'', density = Some 2000, youngsModulus = Some 20, yieldStrength = None, ultimateTensileStrength = None, poissonsRatio = None, shearModulus = None, thermalExpansionCoefficient = None, relativeCost = None, specificStrength = None, specificModulus = None\<rparr>,
      \<lparr>id' = ''3'', name = ''C'', density = Some 4000, youngsModulus = Some 30, yieldStrength = None, ultimateTensileStrength = None, poissonsRatio = None, shearModulus = None, thermalExpansionCoefficient = None, relativeCost = None, specificStrength = None, specificModulus = None\<rparr>]) = 7"
proof -
  let ?A = "\<lparr>id' = ''1'', name = ''A'', density = Some 1000, youngsModulus = Some 10, yieldStrength = None, ultimateTensileStrength = None, poissonsRatio = None, shearModulus = None, thermalExpansionCoefficient = None, relativeCost = None, specificStrength = None, specificModulus = None\<rparr>"
  let ?B = "\<lparr>id' = ''2'', name = ''B'', density = Some 2000, youngsModulus = Some 20, yieldStrength = None, ultimateTensileStrength = None, poissonsRatio = None, shearModulus = None, thermalExpansionCoefficient = None, relativeCost = None, specificStrength = None, specificModulus = None\<rparr>"
  let ?C = "\<lparr>id' = ''3'', name = ''C'', density = Some 4000, youngsModulus = Some 30, yieldStrength = None, ultimateTensileStrength = None, poissonsRatio = None, shearModulus = None, thermalExpansionCoefficient = None, relativeCost = None, specificStrength = None, specificModulus = None\<rparr>"
  let ?nv = "\<lambda>ms x p. normalizedValue (minMaxPass (processedMaterials ms)) p (processMaterial x)"
  note tC = scoring_pass_matches_reference [of ?C "[?A, ?B, ?C]", OF _ refl refl refl]
  note tB = scoring_pass_matches_reference [of ?B "[?A, ?B, ?C]", OF _ refl refl refl]
  note tA = scoring_pass_matches_reference [of ?A "[?A]", OF _ refl refl refl]
  have len: "length radarProperties = 7" by (simp add: radarProperties_def)
  have d: "distinct (map name [?A, ?B, ?C])" by simp
  have sC: "map (\<lambda>p. Some (?nv [?A, ?B, ?C] ?C p)) radarProperties =
              [Some 100, Some 50, Some 50, Some 0, Some 0, Some 50, Some 50]"
    using tC by (simp add: reference_score_def spec_score_def processedMaterials_def
                   processMaterial_def)
  have sB: "map (\<lambda>p. Some (?nv [?A, ?B, ?C] ?B p)) radarProperties =
              [Some 50, Some 50, Some 50, Some (200 / 3), Some 100, Some 50, Some 50]"
    using tB by (simp add: reference_score_def spec_score_def processedMaterials_def
                   processMaterial_def)
  have sA: "map (\<lambda>p. Some (?nv [?A] ?A p)) radarProperties =
              [Some 100, Some 50, Some 50, Some 0, Some 100, Some 50, Some 50]"
    using tA by (simp add: reference_score_def spec_score_def processedMaterials_def
                   processMaterial_def)
  have "map (\<lambda>p. Some (?nv [?A, ?B, ?C] ?C p)) radarProperties ! 0 = Some 100"
    by (simp only: sC nth_Cons_0)
  then have c0: "?nv [?A, ?B, ?C] ?C (radarProperties ! 0) = 100"
    using len by simp
  have "map (\<lambda>p. Some (?nv [?A, ?B, ?C] ?B p)) radarProperties ! 3 = Some (200 / 3)"
    by (simp only: sB) simp
  then have b3: "?nv [?A, ?B, ?C] ?B (radarProperties ! 3) = 200 / 3"
    using len by simp
  have "(normalizedData [?A, ?B, ?C] ! 0) (name ?C) = Some (Num 100)"
    using tC d len c0 by simp
  moreover have "(normalizedData [?A, ?B, ?C] ! 3) (name ?B) = Some (Num (200 / 3))"
    using tB d len b3 by simp
  moreover have "length (normalizedData [?A, ?B, ?C]) = 7"
    using tC len by simp
  ultimately show ?thesis using sC sB sA by simp
qed

theorem extrema_entire_set_permutation_invariant_witness:
  "minMaxPass (processedMaterials [\<lparr>id' = ''2'', name = ''B'', density = Some 2000, youngsModulus = None, yieldStrength = None, ultimateTensileStrength = None, poissonsRatio = None, shearModulus = None, thermalExpansionCoefficient = None, relativeCost = None, specificStrength = None, specificModulus = None\<rparr>,
      \<lparr>id' = ''1'', name = ''A'', density = Some 1000, youngsModulus = None, yieldStrength = None, ultimateTensileStrength = None, poissonsRatio = None, shearModulus = None, thermalExpansionCoefficient = None, relativeCost = None, specificStrength = None, specificModulus = None\<rparr>])
   = minMaxPass (processedMaterials [\<lparr>id' = ''1'', name = ''A'', density = Some 1000, youngsModulus = None, yieldStrength = None, ultimateTensileStrength = None, poissonsRatio = None, shearModulus = None, thermalExpansionCoefficient = None, relativeCost = None, specificStrength = None, specificModulus = None\<rparr>,
      \<lparr>id' = ''2'', name = ''B'', density = Some 2000, youngsModulus = None, yieldStrength = None, ultimateTensileStrength = None, poissonsRatio = None, shearModulus = None, thermalExpansionCoefficient = None, relativeCost = None, specificStrength = None, specificModulus = None\<rparr>])
   \<and> normalizedData [\<lparr>id' = ''2'', name = ''B'', density = Some 2000, youngsModulus = None, yieldStrength = None, ultimateTensileStrength = None, poissonsRatio = None, shearModulus = None, thermalExpansionCoefficient = None, relativeCost = None, specificStrength = None, specificModulus = None\<rparr>,
      \<lparr>id' = ''1'', name = ''A'', density = Some 1000, youngsModulus = None, yieldStrength = None, ultimateTensileStrength = None, poissonsRatio = None, shearModulus = None, thermalExpansionCoefficient = None, relativeCost = None, specificStrength = None, specificModulus = None\<rparr>]
   = normalizedData [\<lparr>id' = ''1'', name = ''A'', density = Some 1000, youngsModulus = None, yieldStrength = None, ultimateTensileStrength = None, poissonsRatio = None, shearModulus = None, thermalExpansionCoefficient = None, relativeCost = None, specificStrength = None, specificModulus = None\<rparr>,
      \<lparr>id' = ''2'', name = ''B'', density = Some 2000, youngsModulus = None, yieldStrength = None, ultimateTensileStrength = None, poissonsRatio = None, shearModulus = None, thermalExpansionCoefficient = None, relativeCost = None, specificStrength = None, specificModulus = None\<rparr>]
   \<and> fst (minMaxPass (processedMaterials [\<lparr>id' = ''1'', name = ''A'', density = Some 1000, youngsModulus = None, yieldStrength = None, ultimateTensileStrength = None, poissonsRatio = None, shearModulus = None, thermalExpansionCoefficient = None, relativeCost = None, specificStrength = None, specificModulus = None\<rparr>,
      \<lparr>id' = ''2'', name = ''B'', density = Some 2000, youngsModulus = None, yieldStrength = None, ultimateTensileStrength = None, poissonsRatio = None, shearModulus = None, thermalExpansionCoefficient = None, relativeCost = None, specificStrength = None, specificModulus = None\<rparr>])) ''density'' = Some 1000
   \<and> snd (minMaxPass (processedMaterials [\<lparr>id' = ''1'', name = ''A'', density = Some 1000, youngsModulus = None, yieldStrength = None, ultimateTensileStrength = None, poissonsRatio = None, shearModulus = None, thermalExpansionCoefficient = None, relativeCost = None, specificStrength = None, specificModulus = None\<rparr>,
      \<lparr>id' = ''2'', name = ''B'', density = Some 2000, youngsModulus = None, yieldStrength = None, ultimateTensileStrength = None, poissonsRatio = None, shearModulus = None, thermalExpansionCoefficient = None, relativeCost = None, specificStrength = None, specificModulus = None\<rparr>])) ''density'' = Some 2000"
proof -
  let ?A = "\<lparr>id' = ''1'', name = ''A'', density = Some 1000, youngsModulus = None, yieldStrength = None, ultimateTensileStrength = None, poissonsRatio = None, shearModulus = None, thermalExpansionCoefficient = None, relativeCost = None, specificStrength = None, specificModulus = None\<rparr>"
  let ?B = "\<lparr>id' = ''2'', name = ''B'', density = Some 2000, youngsModulus = None, yieldStrength = None, ultimateTensileStrength = None, poissonsRatio = None, shearModulus = None, thermalExpansionCoefficient = None, relativeCost = None, specificStrength = None, specificModulus = None\<rparr>"
  let ?p = "\<lparr>key = ''density'', label = ''Density'', higherIsBetter = False\<rparr>"
  have "mset [?B, ?A] = mset [?A, ?B]" by simp
  moreover have "?p \<in> set radarProperties" by (simp add: radarProperties_def)
  moreover have "distinct (map name [?A, ?B])" by simp
  moreover have v: "values_of (processedMaterials [?A, ?B]) ''density'' = [1000, 2000]"
    by (simp add: values_of_def processedMaterials_def processMaterial_def index_number_def)
  moreover have "{r. \<exists>m \<in> set (processedMaterials [?A, ?B]). index_number m ''density'' = Some r}
                   = set [1000, 2000]"
    unfolding v [symmetric] by (rule set_values_of [symmetric])
  ultimately show ?thesis
    using extrema_entire_set_permutation_invariant
            [of "[?B, ?A]" "[?A, ?B]" ?p, OF _ _ refl refl]
    by simp
qed

section \<open>Properties of the derived shear modulus\<close>

text \<open>
  C9. calculateShearModulus returns E / (2 * (1 + nu)) when both inputs are present and
  nu > -1, the divisor being nonzero, and null when an input is missing or nu \<le> -1. A
  shear modulus present in the data is the one written to the payload; the computed one
  is used only when the data have none.
\<close>

theorem shear_modulus_guarded_formula:
  "(nu > - 1 \<longrightarrow>
      calculateShearModulus (Some E) (Some nu) = Some (E / (2 * (1 + nu))) \<and> 2 * (1 + nu) \<noteq> 0)
   \<and> (nu \<le> - 1 \<longrightarrow> calculateShearModulus (Some E) (Some nu) = None)
   \<and> calculateShearModulus None pr = None
   \<and> calculateShearModulus ym None = None
   \<and> (shearModulus' mat = Some g \<longrightarrow>
        shearModulus' (createMaterialPayload mat c) = Some g \<and>
        shearModulus' (main_payload mat) = Some g)
   \<and> (shearModulus' mat = None \<longrightarrow>
        shearModulus' (createMaterialPayload mat c) = c \<and>
        shearModulus' (main_payload mat) =
          calculateShearModulus (youngsModulus' mat) (poissonsRatio' mat))"
proof -
  have "calculateShearModulus (Some E) (Some nu) = Some (E / (2 * (1 + nu))) \<and> 2 * (1 + nu) \<noteq> 0"
    if "nu > - 1"
    using that by (simp add: calculateShearModulus_def)
  moreover have "calculateShearModulus (Some E) (Some nu) = None" if "nu \<le> - 1"
    using that by (simp add: calculateShearModulus_def)
  moreover have "calculateShearModulus None pr = None"
    by (simp add: calculateShearModulus_def)
  moreover have "calculateShearModulus ym None = None"
    by (simp add: calculateShearModulus_def split: option.splits)
  moreover have "shearModulus' (createMaterialPayload mat c) = Some g \<and>
                 shearModulus' (main_payload mat) = Some g"
    if "shearModulus' mat = Some g"
    using that by (simp add: createMaterialPayload_def main_payload_def)
  moreover have "shearModulus' (createMaterialPayload mat c) = c \<and>
                 shearModulus' (main_payload mat) =
                   calculateShearModulus (youngsModulus' mat) (poissonsRatio' mat)"
    if "shearModulus' mat = None"
    using that by (simp add: createMaterialPayload_def main_payload_def)
  ultimately show ?thesis by blast
qed

theorem shear_modulus_guarded_formula_witness:
  "calculateShearModulus (Some 200000000000) (Some (32 / 100)) =
     Some (200000000000 / (2 * (1 + 32 / 100)))
   \<and> calculateShearModulus (Some 200) (Some (- 1)) = None
   \<and> shearModulus' (main_payload
      \<lparr>name' = ''Soda-Lime Glass (Annealed)'', category' = ''Ceramic'', density' = Some 2400,
       youngsModulus' = Some 71000000000, ultimateTensileStrength' = Some 41000000,
       thermalExpansionCoefficient' = Some (88 / 10000000), yieldStrength' = None,
       poissonsRatio' = Some (23 / 100), shearModulus' = Some 29000000000,
       elongationAtBreak' = None, compressiveStrength' = Some 330000000,
       flexuralStrength' = Some 100000000, fractureToughness' = Some (3 / 4),
       meltingPoint' = Some 1040, hdt' = None, maxServiceTemperature' = Some 300,
       fiberType' = None, matrixType' = None\<rparr>) = Some 29000000000
   \<and> shearModulus' (main_payload
      \<lparr>name' = ''AISI 1020 Steel, Hot Rolled'', category' = ''Steel'', density' = Some 7830,
       youngsModulus' = Some 200000000000, ultimateTensileStrength' = Some 345000000,
       thermalExpansionCoefficient' = Some (12 / 1000000), yieldStrength' = Some 221000000,
       poissonsRatio' = Some (32 / 100), shearModulus' = None,
       elongationAtBreak' = Some 25, compressiveStrength' = None,
       flexuralStrength' = None, fractureToughness' = None,
       meltingPoint' = None, hdt' = None, maxServiceTemperature' = None,
       fiberType' = None, matrixType' = None\<rparr>) = Some (200000000000 / (2 * (1 + 32 / 100)))"
  using shear_modulus_guarded_formula [where nu = "32 / 100" and E = 200000000000]
    shear_modulus_guarded_formula [where nu = "- 1" and E = 200]
    shear_modulus_guarded_formula [where g = 29000000000 and mat =
      "\<lparr>name' = ''Soda-Lime Glass (Annealed)'', category' = ''Ceramic'', density' = Some 2400,
       youngsModulus' = Some 71000000000, ultimateTensileStrength' = Some 41000000,
       thermalExpansionCoefficient' = Some (88 / 10000000), yieldStrength' = None,
       poissonsRatio' = Some (23 / 100), shearModulus' = Some 29000000000,
       elongationAtBreak' = None, compressiveStrength' = Some 330000000,
       flexuralStrength' = Some 100000000, fractureToughness' = Some (3 / 4),
       meltingPoint' = Some 1040, hdt' = None, maxServiceTemperature' = Some 300,
       fiberType' = None, matrixType' = None\<rparr>"]
    shear_modulus_guarded_formula [where mat =
      "\<lparr>name' = ''AISI 1020 Steel, Hot Rolled'', category' = ''Steel'', density' = Some 7830,
       youngsModulus' = Some 200000000000, ultimateTensileStrength' = Some 345000000,
       thermalExpansionCoefficient' = Some (12 / 1000000), yieldStrength' = Some 221000000,
       poissonsRatio' = Some (32 / 100), shearModulus' = None,
       elongationAtBreak' = Some 25, compressiveStrength' = None,
       flexuralStrength' = None, fractureToughness' = None,
       meltingPoint' = None, hdt' = None, maxServiceTemperature' = None,
       fiberType' = None, matrixType' = None\<rparr>"]
  by simp

section \<open>Properties of the unit conversion\<close>

text \<open>
  C1 does not hold of the code. For the unit g/cm3 the materials table divides by its
  factor 0.001, which multiplies the SI value by 1000, where the compare page divides by
  1000: 7830 kg/m3 is shown as 7830000 by the table and as 7.83 by the compare page. The
  two pages differ for lb/ft3 in the same way.
\<close>

theorem density_conversion_paths_disagree:
  "MaterialsTable_convertValue
     \<lparr>density_unit = ''g/cm3'', modulus_unit = ''GPa'', strength_unit = ''MPa''\<rparr>
     (Some v) density_type = Inr (Some (v * 1000))
   \<and> calculateConvertedValue
     \<lparr>density_unit = ''g/cm3'', modulus_unit = ''GPa'', strength_unit = ''MPa''\<rparr>
     (Some v) density_type = Inr (Some (v / 1000))
   \<and> MaterialsTable_convertValue
     \<lparr>density_unit = ''g/cm3'', modulus_unit = ''GPa'', strength_unit = ''MPa''\<rparr>
     (Some 7830) density_type = Inr (Some 7830000)
   \<and> calculateConvertedValue
     \<lparr>density_unit = ''g/cm3'', modulus_unit = ''GPa'', strength_unit = ''MPa''\<rparr>
     (Some 7830) density_type = Inr (Some (783 / 100))
   \<and> MaterialsTable_convertValue
     \<lparr>density_unit = ''lb/ft3'', modulus_unit = ''GPa'', strength_unit = ''MPa''\<rparr>
     (Some 160185) density_type = Inr (Some 10000000)
   \<and> calculateConvertedValue
     \<lparr>density_unit = ''lb/ft3'', modulus_unit = ''GPa'', strength_unit = ''MPa''\<rparr>
     (Some 160185) density_type = Inr (Some 10000)"
  by (simp add: MaterialsTable_convertValue_def calculateConvertedValue_def selected_def
        MaterialsTable_conversionFactors_def Compare_conversionFactors_def
        MaterialsTable_densityUnits_def Compare_densityUnits_def)

end
